theory Spec2Isabelle
  imports Main
begin

section \<open>The Programs page of pulse-atlp\<close>

text \<open>
  The development follows \<^verbatim>\<open>src/pages/Programs/Programs.tsx\<close>. The page is a React
  function component: five \<^verbatim>\<open>useState\<close> cells, the dialog of \<^verbatim>\<open>useModal\<close>, a
  side effect in the component body (the list load) and two handlers that live in
  the closure built by \<^verbatim>\<open>getModalContent\<close>.
\<close>

subsection \<open>Values and objects\<close>

text \<open>
  A \<^verbatim>\<open>Program\<close> is a plain JavaScript object. The edit handler writes a computed key
  (\<^verbatim>\<open>[event.target.name]\<close>) and the load reads untyped documents (\<^verbatim>\<open>any[]\<close>), so an
  object is a finite map from property names to values, and a value carries its
  runtime kind. A \<^verbatim>\<open>Date\<close> is its time value in milliseconds; a Firestore
  \<^verbatim>\<open>Timestamp\<close> is its seconds and nanoseconds.
\<close>

datatype jsval =
    JString string
  | JNumber int
  | JDate int
  | JTimestamp int int

type_synonym program = "string \<rightharpoonup> jsval"

text \<open>
  What a \<^verbatim>\<open>throw\<close> or a rejected promise carries: a \<^verbatim>\<open>TypeError\<close> raised by the
  engine (a method called on a value that has none), or a failure of the gateway
  with its message.
\<close>

datatype js_error = TypeError | Failure string

text \<open>
  Joi's \<^verbatim>\<open>ValidationError\<close>: a message and the ordered per-field problems, each with
  the path of the offending field and its own message.
\<close>

record detail =
  d_path :: "string list"
  d_message :: string

record validation_error =
  message :: string
  details :: "detail list"

text \<open>The three ways \<^verbatim>\<open>await ProgramModel.create(newProgram)\<close> can end.\<close>

datatype create_result =
    Created string
  | ValidationFailure validation_error
  | OtherFailure js_error

text \<open>How \<^verbatim>\<open>ProgramModel.getAll()\<close> settles: with the documents' data, or rejected.\<close>

datatype load_result = Resolved "program list" | Rejected js_error

subsection \<open>The state of the page\<close>

text \<open>
  The five state cells of \<^verbatim>\<open>ProgramsPage\<close>, the open flag of the dialog, and what
  the page does to the outside: how often it has invoked \<^verbatim>\<open>getAll\<close>, what it has
  written with \<^verbatim>\<open>console.log\<close>, and the errors that left a handler uncaught.
\<close>

record page =
  programs :: "program list"
  isLoading :: bool
  isCreatingProgram :: bool
  errors :: "string \<rightharpoonup> string"
  newProgram :: program
  modalOpen :: bool
  getAllCalls :: nat
  console :: "js_error list"
  uncaught :: "js_error list"

text \<open>The initial values of the state cells; \<open>now\<close> is \<^verbatim>\<open>new Date()\<close> at mount.\<close>

definition initial_page :: "int \<Rightarrow> page" where
  "initial_page now =
     \<lparr> programs = [],
       isLoading = True,
       isCreatingProgram = False,
       errors = [''title'' \<mapsto> [], ''prerequisiteProgramId'' \<mapsto> [], ''durationInWeeks'' \<mapsto> []],
       newProgram = [''title'' \<mapsto> JString [],
                     ''prerequisiteProgramId'' \<mapsto> JString [],
                     ''createdAt'' \<mapsto> JDate now,
                     ''traineeCount'' \<mapsto> JNumber 0,
                     ''durationInWeeks'' \<mapsto> JNumber 2],
       modalOpen = False,
       getAllCalls = 0,
       console = [],
       uncaught = [] \<rparr>"

subsection \<open>The dialog's content\<close>

text \<open>
  The values \<^verbatim>\<open>getModalContent\<close> receives and its handlers close over. \<open>env_newProgram\<close>
  is the parameter \<^verbatim>\<open>newProgram\<close>, a local variable that the edit handler reassigns.
\<close>

record modal_env =
  env_programs :: "program list"
  env_errors :: "string \<rightharpoonup> string"
  env_newProgram :: program
  env_isCreatingProgram :: bool

text \<open>The form that \<^verbatim>\<open>getModalContent\<close> returns: what its inputs and button show.\<close>

record form =
  title_error :: "string option"
  durationInWeeks_error :: "string option"
  prerequisiteProgramId_error :: "string option"
  prerequisiteProgramId_disabled :: bool
  submit_disabled :: bool
  submit_label :: string

definition modal_form :: "modal_env \<Rightarrow> form" where
  "modal_form env =
     \<lparr> title_error = env_errors env ''title'',
       durationInWeeks_error = env_errors env ''durationInWeeks'',
       prerequisiteProgramId_error = env_errors env ''prerequisiteProgramId'',
       prerequisiteProgramId_disabled = (length (env_programs env) = 0),
       submit_disabled = env_isCreatingProgram env,
       submit_label = (if \<not> env_isCreatingProgram env then ''Create Program''
                       else ''Please Wait...'') \<rparr>"

text \<open>The call of \<^verbatim>\<open>getModalContent\<close> in \<^verbatim>\<open>ProgramsPage\<close>: the current state cells.\<close>

definition getModalContent :: "page \<Rightarrow> modal_env" where
  "getModalContent st =
     \<lparr> env_programs = programs st,
       env_errors = errors st,
       env_newProgram = newProgram st,
       env_isCreatingProgram = isCreatingProgram st \<rparr>"

subsection \<open>Rendering\<close>

text \<open>
  A card shows the program's trainee count and title as they are, and the long-form
  date of \<^verbatim>\<open>createdAt\<close>; \<^verbatim>\<open>toLocaleDateString\<close> exists on a \<^verbatim>\<open>Date\<close> only, so rendering
  a program whose \<^verbatim>\<open>createdAt\<close> is anything else throws.
\<close>

record card =
  card_traineeCount :: "jsval option"
  card_title :: "jsval option"
  card_createdAt :: int

definition program_card :: "program \<Rightarrow> js_error + card" where
  "program_card p =
     (case p ''createdAt'' of
        Some (JDate d) \<Rightarrow>
          Inr \<lparr> card_traineeCount = p ''traineeCount'',
                card_title = p ''title'',
                card_createdAt = d \<rparr>
      | _ \<Rightarrow> Inl TypeError)"

fun render_cards :: "program list \<Rightarrow> js_error + card list" where
  "render_cards [] = Inr []"
| "render_cards (p # ps) =
     (case program_card p of
        Inl e \<Rightarrow> Inl e
      | Inr c \<Rightarrow> (case render_cards ps of Inl e \<Rightarrow> Inl e | Inr cs \<Rightarrow> Inr (c # cs)))"

text \<open>
  The three returns of \<^verbatim>\<open>ProgramsPage\<close>: the loading indicator alone; the empty state
  (icon, title, prompt and the create button) with the dialog; the toolbar and the
  cards with the dialog.
\<close>

datatype view =
    LoadingView
  | EmptyStateView form
  | ProgramsView "card list" form

text \<open>
  One call of the component function. While \<^verbatim>\<open>isLoading\<close> holds, the body invokes
  \<^verbatim>\<open>ProgramModel.getAll()\<close> before it returns the loading indicator.
\<close>

definition ProgramsPage :: "page \<Rightarrow> (js_error + view) \<times> page" where
  "ProgramsPage st =
     (if isLoading st then
        (Inr LoadingView, st\<lparr>getAllCalls := getAllCalls st + 1\<rparr>)
      else if length (programs st) = 0 \<and> \<not> isLoading st then
        (Inr (EmptyStateView (modal_form (getModalContent st))), st)
      else
        (case render_cards (programs st) of
           Inl e \<Rightarrow> (Inl e, st)
         | Inr cs \<Rightarrow> (Inr (ProgramsView cs (modal_form (getModalContent st))), st)))"

text \<open>
  React calls the component again after a state cell has changed. The page runs on
  React's legacy root, where an update made outside a React event handler (here: in
  a promise callback) is rendered before the setter returns.
\<close>

definition rerender :: "page \<Rightarrow> page" where
  "rerender st = snd (ProgramsPage st)"

definition updatePrograms :: "program list \<Rightarrow> page \<Rightarrow> page" where
  "updatePrograms ps st = rerender (st\<lparr>programs := ps\<rparr>)"

definition updateLoadingStatus :: "bool \<Rightarrow> page \<Rightarrow> page" where
  "updateLoadingStatus b st = (if isLoading st = b then st else rerender (st\<lparr>isLoading := b\<rparr>))"

definition updateCreatingProgramStatus :: "bool \<Rightarrow> page \<Rightarrow> page" where
  "updateCreatingProgramStatus b st =
     (if isCreatingProgram st = b then st else rerender (st\<lparr>isCreatingProgram := b\<rparr>))"

definition updateErrors :: "(string \<rightharpoonup> string) \<Rightarrow> page \<Rightarrow> page" where
  "updateErrors es st = rerender (st\<lparr>errors := es\<rparr>)"

definition updateNewProgram :: "program \<Rightarrow> page \<Rightarrow> page" where
  "updateNewProgram p st = rerender (st\<lparr>newProgram := p\<rparr>)"

text \<open>
  Modelled from the spec: \<^verbatim>\<open>toggleModal\<close> of \<^verbatim>\<open>components/Modal/Modal\<close>, which is not
  part of the sources at hand. The same function opens the dialog from the create
  button and closes it after a successful creation, so it flips the open flag.
\<close>

definition toggleModal :: "page \<Rightarrow> page" where
  "toggleModal st = rerender (st\<lparr>modalOpen := \<not> modalOpen st\<rparr>)"

subsection \<open>The handlers of the form\<close>

text \<open>
  \<^verbatim>\<open>newProgramOnChangeHandler\<close>: the local draft becomes a copy of itself with the
  property named by the input set to the input's text. Nothing else is read or
  written.
\<close>

definition newProgramOnChangeHandler :: "string \<Rightarrow> string \<Rightarrow> modal_env \<Rightarrow> modal_env" where
  "newProgramOnChangeHandler name val env =
     env\<lparr>env_newProgram := (env_newProgram env)(name \<mapsto> JString val)\<rparr>"

text \<open>
  \<^verbatim>\<open>err.message.replace(/^".+"/, 'Field')\<close>. The pattern is anchored at the start, has
  no flags, and its \<^verbatim>\<open>.+\<close> is greedy: after the opening quote it takes as many
  characters of the first line as it can while a closing quote still follows, and
  at least one. So the match ends at the last quote of the first line, if that
  quote is at index 2 or later; the first match is replaced, and a message without
  a match is returned as it is. Messages are strings of 8-bit characters, among
  which the line terminators are LF and CR.
\<close>

definition dquote :: char where
  "dquote = CHR 0x22"

definition is_line_terminator :: "char \<Rightarrow> bool" where
  "is_line_terminator c = (c = CHR 0x0A \<or> c = CHR 0x0D)"

fun last_index_of :: "char \<Rightarrow> string \<Rightarrow> nat option" where
  "last_index_of c [] = None"
| "last_index_of c (x # xs) =
     (case last_index_of c xs of
        Some i \<Rightarrow> Some (Suc i)
      | None \<Rightarrow> if x = c then Some 0 else None)"

definition replace_leading_quoted :: "string \<Rightarrow> string" where
  "replace_leading_quoted msg =
     (case msg of
        [] \<Rightarrow> msg
      | c # rest \<Rightarrow>
          if c \<noteq> dquote then msg
          else
            (case takeWhile (\<lambda>x. \<not> is_line_terminator x) rest of
               [] \<Rightarrow> msg
             | _ # line \<Rightarrow>
                 (case last_index_of dquote line of
                    None \<Rightarrow> msg
                  | Some i \<Rightarrow> ''Field'' @ drop (i + 3) msg)))"

text \<open>
  The key of the stored error, \<^verbatim>\<open>err.details[0].path[0]\<close> used as a computed property
  name: the first segment of the path, or the name \<^verbatim>\<open>undefined\<close> when the path is empty.
\<close>

definition path_key :: "detail \<Rightarrow> string" where
  "path_key d = (case d_path d of [] \<Rightarrow> ''undefined'' | k # _ \<Rightarrow> k)"

text \<open>
  \<^verbatim>\<open>addNewProgramHandler\<close>, with the gateway's \<^verbatim>\<open>create\<close> as a parameter. A failure that
  is not a \<^verbatim>\<open>ValidationError\<close> falls through the \<^verbatim>\<open>catch\<close> block, which does nothing
  for it. With an empty \<^verbatim>\<open>details\<close> the read \<^verbatim>\<open>err.details[0].path\<close> throws inside the
  \<^verbatim>\<open>catch\<close> block, after the flag and the draft have been written.
\<close>

definition addNewProgramHandler :: "(program \<Rightarrow> create_result) \<Rightarrow> modal_env \<Rightarrow> page \<Rightarrow> page" where
  "addNewProgramHandler create env st =
     (let st1 = updateCreatingProgramStatus True st in
      case create (env_newProgram env) of
        Created docId \<Rightarrow>
          updateErrors Map.empty
            (updatePrograms (env_programs env @ [(env_newProgram env)(''id'' \<mapsto> JString docId)])
              (updateCreatingProgramStatus False (toggleModal st1)))
      | ValidationFailure err \<Rightarrow>
          (let st2 = updateNewProgram (env_newProgram env) (updateCreatingProgramStatus False st1);
               errorMessage = replace_leading_quoted (message err)
           in case details err of
                [] \<Rightarrow> st2\<lparr>uncaught := uncaught st2 @ [TypeError]\<rparr>
              | d # _ \<Rightarrow> updateErrors [path_key d \<mapsto> errorMessage] st2)
      | OtherFailure e \<Rightarrow> st1)"

subsection \<open>The list load\<close>

text \<open>
  The \<^verbatim>\<open>forEach\<close> of the success callback: each document's data is appended to
  \<^verbatim>\<open>existingPrograms\<close> and its \<^verbatim>\<open>createdAt\<close> replaced by \<^verbatim>\<open>new Date(createdAt.toDate())\<close>.
  \<open>toDate\<close> is Firestore's conversion of a timestamp to a time value; a \<^verbatim>\<open>createdAt\<close>
  that is absent or not a timestamp has no such method, and the call throws.
\<close>

definition convert_doc :: "(int \<Rightarrow> int \<Rightarrow> int) \<Rightarrow> program \<Rightarrow> js_error + program" where
  "convert_doc toDate d =
     (case d ''createdAt'' of
        Some (JTimestamp secs nanos) \<Rightarrow> Inr (d(''createdAt'' \<mapsto> JDate (toDate secs nanos)))
      | _ \<Rightarrow> Inl TypeError)"

fun convert_docs :: "(int \<Rightarrow> int \<Rightarrow> int) \<Rightarrow> program list \<Rightarrow> program list \<Rightarrow> js_error + program list" where
  "convert_docs toDate existingPrograms [] = Inr existingPrograms"
| "convert_docs toDate existingPrograms (d # ds) =
     (case convert_doc toDate d of
        Inl e \<Rightarrow> Inl e
      | Inr p \<Rightarrow> convert_docs toDate (existingPrograms @ [p]) ds)"

text \<open>The callbacks given to \<^verbatim>\<open>then\<close>, \<^verbatim>\<open>catch\<close> and \<^verbatim>\<open>finally\<close>.\<close>

definition load_then :: "(int \<Rightarrow> int \<Rightarrow> int) \<Rightarrow> program list \<Rightarrow> page \<Rightarrow> js_error + page" where
  "load_then toDate docs st =
     (case convert_docs toDate [] docs of
        Inl e \<Rightarrow> Inl e
      | Inr existingPrograms \<Rightarrow> Inr (updatePrograms existingPrograms st))"

definition load_catch :: "js_error \<Rightarrow> page \<Rightarrow> page" where
  "load_catch err st = st\<lparr>console := console st @ [err]\<rparr>"

definition load_finally :: "page \<Rightarrow> page" where
  "load_finally st = updateLoadingStatus False st"

text \<open>
  The chain \<^verbatim>\<open>getAll().then(...).catch(...).finally(...)\<close> once the promise has
  settled: a rejection, and an exception of the success callback, both reach the
  \<^verbatim>\<open>catch\<close> callback; the \<^verbatim>\<open>finally\<close> callback runs last in either case.
\<close>

definition getAll_settled :: "(int \<Rightarrow> int \<Rightarrow> int) \<Rightarrow> load_result \<Rightarrow> page \<Rightarrow> page" where
  "getAll_settled toDate r st =
     load_finally
       (case r of
          Rejected err \<Rightarrow> load_catch err st
        | Resolved docs \<Rightarrow>
            (case load_then toDate docs st of
               Inl err \<Rightarrow> load_catch err st
             | Inr st' \<Rightarrow> st'))"

text \<open>The first render of the page.\<close>

definition mount :: "int \<Rightarrow> page" where
  "mount now = snd (ProgramsPage (initial_page now))"

subsection \<open>What a view shows\<close>

text \<open>
  The classification of a view, for stating what the display depends on: which of
  the three returns it is and, for the populated one, its cards. The dialog's form
  is left out.
\<close>

datatype display = LoadingIndicator | EmptyState | ToolbarAndCards "card list"

fun display_of :: "view \<Rightarrow> display" where
  "display_of LoadingView = LoadingIndicator"
| "display_of (EmptyStateView f) = EmptyState"
| "display_of (ProgramsView cs f) = ToolbarAndCards cs"

subsection \<open>Example values\<close>

text \<open>A stored document, and a Firestore conversion that ignores the nanoseconds.\<close>

definition stored_program :: program where
  "stored_program =
     [''title'' \<mapsto> JString ''Cohort 1'', ''traineeCount'' \<mapsto> JNumber 3,
      ''createdAt'' \<mapsto> JTimestamp 1600000000 0]"

definition whole_seconds :: "int \<Rightarrow> int \<Rightarrow> int" where
  "whole_seconds secs nanos = secs * 1000"

text \<open>A page that has loaded one program and whose dialog has been opened.\<close>

definition open_page :: page where
  "open_page = toggleModal (getAll_settled whole_seconds (Resolved [stored_program]) (mount 0))"

text \<open>The form of that page after a title and a duration have been typed.\<close>

definition typed_env :: modal_env where
  "typed_env =
     newProgramOnChangeHandler ''durationInWeeks'' ''6''
       (newProgramOnChangeHandler ''title'' ''Cohort 5'' (getModalContent open_page))"

text \<open>
  The error Joi builds when it is told to report every problem and finds two: the
  message is the problems' messages joined by a full stop and a space.
\<close>

definition two_problems :: validation_error where
  \<open>two_problems =
     \<lparr> message = ''"title" is not allowed to be empty. "durationInWeeks" must be a number'',
       details =
         [\<lparr> d_path = [''title''], d_message = ''"title" is not allowed to be empty'' \<rparr>,
          \<lparr> d_path = [''durationInWeeks''],
            d_message = ''"durationInWeeks" must be a number'' \<rparr>] \<rparr>\<close>

section \<open>Properties\<close>

subsection \<open>Rendering again changes the load counter only\<close>

lemma rerender_eq:
  "rerender st =
     st\<lparr>getAllCalls := (if isLoading st then getAllCalls st + 1 else getAllCalls st)\<rparr>"
  by (simp add: rerender_def ProgramsPage_def split: sum.splits)

lemmas setters =
  updatePrograms_def updateLoadingStatus_def updateCreatingProgramStatus_def
  updateErrors_def updateNewProgram_def toggleModal_def rerender_eq

lemmas first_load =
  getAll_settled_def load_finally_def load_then_def load_catch_def mount_def
  ProgramsPage_def initial_page_def


lemma open_page_cells:
  "modalOpen open_page" "\<not> isLoading open_page" "\<not> isCreatingProgram open_page"
  "length (programs open_page) = 1"
  "errors open_page ''title'' = Some []"
  "console open_page = []" "uncaught open_page = []"
  by (simp_all add: open_page_def setters first_load convert_doc_def stored_program_def)


subsection \<open>The loops succeed when every element does\<close>

lemma render_cards_all:
  "map program_card ps = map Inr cs \<Longrightarrow> render_cards ps = Inr cs"
  by (induction ps arbitrary: cs) auto

lemma convert_docs_all:
  "map (convert_doc toDate) docs = map Inr ps \<Longrightarrow> convert_docs toDate acc docs = Inr (acc @ ps)"
  by (induction docs arbitrary: acc ps) auto

lemma convert_doc_error: "convert_doc toDate d = Inl e \<Longrightarrow> e = TypeError"
  by (auto simp: convert_doc_def split: option.splits jsval.splits)

lemma convert_docs_some_fails:
  "\<exists>d\<in>set docs. isl (convert_doc toDate d) \<Longrightarrow> convert_docs toDate acc docs = Inl TypeError"
proof (induction docs arbitrary: acc)
  case Nil
  then show ?case by simp
next
  case (Cons d ds)
  show ?case
  proof (cases "convert_doc toDate d")
    case (Inl e)
    then show ?thesis using convert_doc_error [OF Inl] by simp
  next
    case (Inr p)
    with Cons.prems have "\<exists>d\<in>set ds. isl (convert_doc toDate d)" by auto
    then show ?thesis using Inr Cons.IH by simp
  qed
qed

subsection \<open>The replaced prefix of a message\<close>

lemma last_index_of_absent: "c \<notin> set xs \<Longrightarrow> last_index_of c xs = None"
  by (induction xs) auto

lemma last_index_of_final: "c \<notin> set ys \<Longrightarrow> last_index_of c (xs @ c # ys) = Some (length xs)"
  by (induction xs) (auto simp: last_index_of_absent)

text \<open>
  A message that opens with one quoted name and has no further quote: the name
  with its quotes is replaced, and the rest of the message is kept.
\<close>

lemma replace_single_quoted_name:
  assumes "name \<noteq> []" and "\<forall>c\<in>set name. \<not> is_line_terminator c" and "dquote \<notin> set tail"
  shows "replace_leading_quoted (dquote # name @ dquote # tail) = ''Field'' @ tail"
proof -
  obtain x name' where name: "name = x # name'"
    using assms(1) by (cases name) auto
  have "\<not> is_line_terminator dquote"
    by (simp add: is_line_terminator_def dquote_def)
  then have tw: "takeWhile (\<lambda>x. \<not> is_line_terminator x) (x # name' @ dquote # tail)
      = x # name' @ dquote # takeWhile (\<lambda>x. \<not> is_line_terminator x) tail"
    using assms(2) by (simp add: name takeWhile_append2)
  have "dquote \<notin> set (takeWhile (\<lambda>x. \<not> is_line_terminator x) tail)"
    using assms(3) by (meson set_takeWhileD)
  then have "last_index_of dquote (name' @ dquote # takeWhile (\<lambda>x. \<not> is_line_terminator x) tail)
      = Some (length name')"
    by (rule last_index_of_final)
  moreover have "drop (length name' + 3) (dquote # x # name' @ dquote # tail) = tail"
    by (simp add: numeral_3_eq_3)
  ultimately show ?thesis
    unfolding name replace_leading_quoted_def by (simp add: tw del: takeWhile.simps)
qed

lemma required_message_sanitized:
  \<open>replace_leading_quoted ''"fieldName" is required'' = ''Field is required''\<close>
  by (simp add: replace_leading_quoted_def dquote_def is_line_terminator_def)

subsection \<open>Creation\<close>



text \<open>
  C2. A validation failure with two or more problems stores exactly one pair, keyed
  by the first segment of the first problem's path, whose message is the raw message
  with its leading quoted field name replaced by \<^verbatim>\<open>Field\<close>. The code does not do the
  last part on such an error: the pattern's greedy \<^verbatim>\<open>.+\<close> runs to the last quote of the
  message, so for the two problems below everything up to and including the second
  field's name is replaced, and the title field is shown the tail of the duration's
  problem.
\<close>

theorem joined_message_loses_first_problem:
  "errors (addNewProgramHandler (\<lambda>_. ValidationFailure two_problems) env st)
     = [''title'' \<mapsto> ''Field must be a number'']"
  by (simp add: addNewProgramHandler_def setters Let_def two_problems_def
      replace_leading_quoted_def dquote_def is_line_terminator_def path_key_def)

text \<open>
  C4. When \<^verbatim>\<open>create\<close> fails with anything but a validation error, the handler ends
  with the submitting flag still set; the error set, what the form shows of it, the
  list, the stored draft, the dialog, the console and the uncaught errors are as
  before.
\<close>

theorem other_failure_swallowed:
  assumes "create (env_newProgram env) = OtherFailure e"
    and "st' = addNewProgramHandler create env st"
  shows "isCreatingProgram st' \<and> errors st' = errors st \<and> programs st' = programs st
       \<and> console st' = console st \<and> uncaught st' = uncaught st
       \<and> newProgram st' = newProgram st \<and> modalOpen st' = modalOpen st
       \<and> title_error (modal_form (getModalContent st'))
           = title_error (modal_form (getModalContent st))
       \<and> durationInWeeks_error (modal_form (getModalContent st'))
           = durationInWeeks_error (modal_form (getModalContent st))
       \<and> prerequisiteProgramId_error (modal_form (getModalContent st'))
           = prerequisiteProgramId_error (modal_form (getModalContent st))"
  using assms by (simp add: addNewProgramHandler_def setters modal_form_def getModalContent_def)

theorem other_failure_swallowed_witness:
  "isCreatingProgram (addNewProgramHandler (\<lambda>_. OtherFailure (Failure ''unavailable'')) typed_env open_page)
   \<and> errors (addNewProgramHandler (\<lambda>_. OtherFailure (Failure ''unavailable'')) typed_env open_page) ''title''
       = Some []
   \<and> length (programs (addNewProgramHandler (\<lambda>_. OtherFailure (Failure ''unavailable'')) typed_env open_page))
       = 1
   \<and> console (addNewProgramHandler (\<lambda>_. OtherFailure (Failure ''unavailable'')) typed_env open_page) = []
   \<and> uncaught (addNewProgramHandler (\<lambda>_. OtherFailure (Failure ''unavailable'')) typed_env open_page) = []"
proof -
  let ?create = "\<lambda>_ :: program. OtherFailure (Failure ''unavailable'')"
  have "?create (env_newProgram typed_env) = OtherFailure (Failure ''unavailable'')"
    by simp
  from other_failure_swallowed [where st = open_page, OF this refl] open_page_cells
  show ?thesis by simp
qed



text \<open>
  C9. When \<^verbatim>\<open>create\<close> rejects the draft with a validation error, the list of the page
  after the handler is the list before it.
\<close>

theorem list_unchanged_on_validation_failure:
  assumes "create (env_newProgram env) = ValidationFailure err"
  shows "programs (addNewProgramHandler create env st) = programs st"
  using assms
  by (simp add: addNewProgramHandler_def setters Let_def split: list.splits)

theorem list_unchanged_on_validation_failure_witness:
  "length (programs (addNewProgramHandler (\<lambda>_. ValidationFailure two_problems) typed_env open_page)) = 1"
proof -
  let ?create = "\<lambda>_ :: program. ValidationFailure two_problems"
  have "?create (env_newProgram typed_env) = ValidationFailure two_problems"
    by simp
  from list_unchanged_on_validation_failure [where st = open_page, OF this] open_page_cells(4)
  show ?thesis by simp
qed

text \<open>
  C8. An edit of the field named \<open>f\<close> with the text \<open>v\<close> sets property \<open>f\<close> of the
  form's draft to \<open>v\<close> and leaves every other property of the draft as it was. It
  validates nothing: the errors, the list and the flag the form was built from, and
  so all that the form shows, are unchanged.
\<close>

theorem edit_updates_named_field:
  "env_newProgram (newProgramOnChangeHandler f v env) f = Some (JString v)
   \<and> (\<forall>g. g \<noteq> f \<longrightarrow> env_newProgram (newProgramOnChangeHandler f v env) g = env_newProgram env g)
   \<and> env_errors (newProgramOnChangeHandler f v env) = env_errors env
   \<and> env_programs (newProgramOnChangeHandler f v env) = env_programs env
   \<and> env_isCreatingProgram (newProgramOnChangeHandler f v env) = env_isCreatingProgram env
   \<and> modal_form (newProgramOnChangeHandler f v env) = modal_form env"
  by (simp add: newProgramOnChangeHandler_def modal_form_def)

theorem edit_updates_named_field_witness:
  "env_newProgram (newProgramOnChangeHandler ''title'' ''Cohort 5'' (getModalContent (initial_page 0)))
     ''title'' = Some (JString ''Cohort 5'')
   \<and> env_newProgram (newProgramOnChangeHandler ''title'' ''Cohort 5'' (getModalContent (initial_page 0)))
       ''durationInWeeks'' = Some (JNumber 2)
   \<and> env_errors (newProgramOnChangeHandler ''title'' ''Cohort 5'' (getModalContent (initial_page 0)))
       ''title'' = Some []"
proof -
  let ?env = "getModalContent (initial_page 0)"
  let ?env' = "newProgramOnChangeHandler ''title'' ''Cohort 5'' ?env"
  note edited = edit_updates_named_field [of "''title''" "''Cohort 5''" ?env]
  have named: "env_newProgram ?env' ''title'' = Some (JString ''Cohort 5'')"
    by (rule conjunct1 [OF edited])
  have others: "\<forall>g. g \<noteq> ''title'' \<longrightarrow> env_newProgram ?env' g = env_newProgram ?env g"
    by (rule conjunct1 [OF conjunct2 [OF edited]])
  have errs: "env_errors ?env' = env_errors ?env"
    by (rule conjunct1 [OF conjunct2 [OF conjunct2 [OF edited]]])
  have "''durationInWeeks'' \<noteq> ''title''"
    by simp
  with others [rule_format, of "''durationInWeeks''"]
  have "env_newProgram ?env' ''durationInWeeks'' = env_newProgram ?env ''durationInWeeks''" .
  with named errs show ?thesis
    by (simp add: getModalContent_def initial_page_def)
qed

text \<open>
  C10. The prerequisite input of the form is disabled exactly when the list of the
  page is empty.
\<close>

theorem prerequisite_disabled_iff_empty:
  "prerequisiteProgramId_disabled (modal_form (getModalContent st)) = (programs st = [])"
  by (simp add: modal_form_def getModalContent_def)

subsection \<open>The list load\<close>

text \<open>
  C5. Whatever the outcome of the first load, the loading flag is cleared once it
  has completed. If the load is rejected, the error is logged and the list is empty.
  If it resolves and every document's timestamp converts, the list is exactly the
  converted documents; if some document has no timestamp to convert, the exception
  takes the failure path: it is logged and the list is empty.
\<close>

theorem initial_load_outcomes:
  "\<not> isLoading (getAll_settled toDate r (mount now))
   \<and> programs (getAll_settled toDate (Rejected err) (mount now)) = []
   \<and> console (getAll_settled toDate (Rejected err) (mount now)) = [err]
   \<and> (map (convert_doc toDate) docs = map Inr ps \<longrightarrow>
        programs (getAll_settled toDate (Resolved docs) (mount now)) = ps
        \<and> console (getAll_settled toDate (Resolved docs) (mount now)) = [])
   \<and> ((\<exists>d\<in>set docs. isl (convert_doc toDate d)) \<longrightarrow>
        programs (getAll_settled toDate (Resolved docs) (mount now)) = []
        \<and> console (getAll_settled toDate (Resolved docs) (mount now)) = [TypeError])"
proof -
  have cleared: "\<not> isLoading (getAll_settled toDate r (mount now))"
    by (simp add: first_load setters split: load_result.splits sum.splits)
  have rejected:
    "programs (getAll_settled toDate (Rejected err) (mount now)) = []"
    "console (getAll_settled toDate (Rejected err) (mount now)) = [err]"
    by (simp_all add: first_load setters)
  have resolved:
    "programs (getAll_settled toDate (Resolved docs) (mount now)) = ps
     \<and> console (getAll_settled toDate (Resolved docs) (mount now)) = []"
    if "map (convert_doc toDate) docs = map Inr ps"
    using convert_docs_all [OF that, of "[]"] by (simp add: first_load setters)
  have thrown:
    "programs (getAll_settled toDate (Resolved docs) (mount now)) = []
     \<and> console (getAll_settled toDate (Resolved docs) (mount now)) = [TypeError]"
    if "\<exists>d\<in>set docs. isl (convert_doc toDate d)"
    using convert_docs_some_fails [OF that, of "[]"] by (simp add: first_load setters)
  from cleared rejected resolved thrown show ?thesis by blast
qed

theorem initial_load_outcomes_witness:
  "\<not> isLoading (getAll_settled whole_seconds (Resolved [stored_program]) (mount 0))
   \<and> length (programs (getAll_settled whole_seconds (Resolved [stored_program]) (mount 0))) = 1
   \<and> (programs (getAll_settled whole_seconds (Resolved [stored_program]) (mount 0)) ! 0) ''createdAt''
       = Some (JDate 1600000000000)
   \<and> (programs (getAll_settled whole_seconds (Resolved [stored_program]) (mount 0)) ! 0) ''title''
       = Some (JString ''Cohort 1'')
   \<and> programs (getAll_settled whole_seconds (Rejected (Failure ''offline'')) (mount 0)) = []
   \<and> console (getAll_settled whole_seconds (Rejected (Failure ''offline'')) (mount 0))
       = [Failure ''offline'']
   \<and> programs (getAll_settled whole_seconds (Resolved [Map.empty]) (mount 0)) = []
   \<and> console (getAll_settled whole_seconds (Resolved [Map.empty]) (mount 0)) = [TypeError]"
proof -
  let ?p = "stored_program(''createdAt'' \<mapsto> JDate 1600000000000)"
  have converts: "map (convert_doc whole_seconds) [stored_program] = map Inr [?p]"
    by (simp add: convert_doc_def stored_program_def whole_seconds_def)
  have throws: "\<exists>d\<in>set [Map.empty :: program]. isl (convert_doc whole_seconds d)"
    by (simp add: convert_doc_def)
  from initial_load_outcomes
         [of whole_seconds "Resolved [stored_program]" 0 "Failure ''offline''" "[stored_program]" "[?p]"]
       converts
       initial_load_outcomes
         [of whole_seconds "Resolved [stored_program]" 0 "Failure ''offline''" "[Map.empty]" "[]"]
       throws
  show ?thesis by (simp add: stored_program_def)
qed

text \<open>
  C7. \<^verbatim>\<open>getAll\<close> is to be invoked at most once in the life of the page. The code
  invokes it in the component body under \<^verbatim>\<open>isLoading\<close>, and clears \<^verbatim>\<open>isLoading\<close> in the
  \<^verbatim>\<open>finally\<close> callback only, after the success callback has stored the list. Storing
  the list renders the page while \<^verbatim>\<open>isLoading\<close> still holds, so a load that resolves,
  even with no document, invokes \<^verbatim>\<open>getAll\<close> a second time. The second load, however
  it settles, invokes no third.
\<close>

theorem getAll_invoked_twice:
  "getAllCalls (mount now) = 1
   \<and> getAllCalls (getAll_settled toDate (Resolved []) (mount now)) = 2
   \<and> getAllCalls (getAll_settled toDate r (getAll_settled toDate (Resolved []) (mount now))) = 2"
  by (simp add: first_load setters split: load_result.splits sum.splits)

subsection \<open>Display\<close>

text \<open>
  C3. What the page shows is decided by the list and the loading flag: the loading
  indicator alone while loading; the empty state when not loading and the list is
  empty; otherwise the toolbar and one card per program, in the order of the list
  (every program of the list having a \<^verbatim>\<open>Date\<close> as its \<^verbatim>\<open>createdAt\<close>, as its type
  says). Two pages with the same list and flag show the same. A first load that
  resolves with no document ends in the empty state.
\<close>

theorem display_classification:
  "(isLoading st \<longrightarrow> fst (ProgramsPage st) = Inr LoadingView)
   \<and> (\<not> isLoading st \<and> programs st = [] \<longrightarrow>
        fst (ProgramsPage st) = Inr (EmptyStateView (modal_form (getModalContent st))))
   \<and> (\<not> isLoading st \<and> programs st \<noteq> [] \<and> map program_card (programs st) = map Inr cs \<longrightarrow>
        fst (ProgramsPage st) = Inr (ProgramsView cs (modal_form (getModalContent st)))
        \<and> length cs = length (programs st))
   \<and> (programs st1 = programs st2 \<and> isLoading st1 = isLoading st2 \<longrightarrow>
        map_sum id display_of (fst (ProgramsPage st1))
          = map_sum id display_of (fst (ProgramsPage st2)))
   \<and> map_sum id display_of (fst (ProgramsPage (getAll_settled toDate (Resolved []) (mount now))))
       = Inr EmptyState"
proof -
  have loading: "fst (ProgramsPage st) = Inr LoadingView" if "isLoading st"
    using that by (simp add: ProgramsPage_def)
  have empty: "fst (ProgramsPage st) = Inr (EmptyStateView (modal_form (getModalContent st)))"
    if "\<not> isLoading st" "programs st = []"
    using that by (simp add: ProgramsPage_def)
  have populated:
    "fst (ProgramsPage st) = Inr (ProgramsView cs (modal_form (getModalContent st)))
     \<and> length cs = length (programs st)"
    if "\<not> isLoading st" "programs st \<noteq> []" "map program_card (programs st) = map Inr cs"
  proof -
    have "length (map program_card (programs st)) = length (map Inr cs :: (js_error + card) list)"
      using that(3) by simp
    then have "length cs = length (programs st)"
      by simp
    then show ?thesis
      using that(1,2) render_cards_all [OF that(3)] by (simp add: ProgramsPage_def)
  qed
  have same:
    "map_sum id display_of (fst (ProgramsPage st1)) = map_sum id display_of (fst (ProgramsPage st2))"
    if "programs st1 = programs st2" "isLoading st1 = isLoading st2"
    using that by (simp add: ProgramsPage_def split: sum.splits)
  have gating:
    "map_sum id display_of (fst (ProgramsPage (getAll_settled toDate (Resolved []) (mount now))))
       = Inr EmptyState"
    by (simp add: first_load setters)
  from loading empty populated same gating show ?thesis by blast
qed

theorem display_classification_witness:
  "fst (ProgramsPage (mount 0)) = Inr LoadingView
   \<and> map_sum id display_of
       (fst (ProgramsPage (getAll_settled whole_seconds (Resolved []) (mount 0))))
       = Inr EmptyState
   \<and> map_sum id display_of
       (fst (ProgramsPage (getAll_settled whole_seconds (Resolved [stored_program]) (mount 0))))
       = Inr (ToolbarAndCards
           [\<lparr> card_traineeCount = Some (JNumber 3), card_title = Some (JString ''Cohort 1''),
               card_createdAt = 1600000000000 \<rparr>])"
proof -
  let ?e = "getAll_settled whole_seconds (Resolved []) (mount 0)"
  let ?st = "getAll_settled whole_seconds (Resolved [stored_program]) (mount 0)"
  let ?cs = "[\<lparr> card_traineeCount = Some (JNumber 3), card_title = Some (JString ''Cohort 1''),
               card_createdAt = 1600000000000 \<rparr>]"
  have l: "isLoading (mount 0)"
    by (simp add: first_load)
  have e: "\<not> isLoading ?e \<and> programs ?e = []"
    by (simp add: first_load setters)
  have p: "\<not> isLoading ?st \<and> programs ?st \<noteq> [] \<and> map program_card (programs ?st) = map Inr ?cs"
    by (simp add: first_load setters convert_doc_def stored_program_def program_card_def
          whole_seconds_def)
  from display_classification [of "mount 0" "[]" "mount 0" "mount 0" whole_seconds 0] l
       display_classification [of ?e "[]" ?e ?e whole_seconds 0] e
       display_classification [of ?st ?cs ?st ?st whole_seconds 0] p
  show ?thesis by simp
qed

end
